theory Spec2Isabelle
  imports Complex_Main "HOL-Library.Word"
begin

section \<open>Data model of fancontrol.c\<close>

text \<open>
  A C \<open>float\<close> of the source (a temperature, a fan level) is modelled by the real number
  it denotes, and every arithmetic operation on floats by the exact operation followed by
  the rounding \<open>f32\<close> to binary32 (round to nearest, ties to even, with gradual
  underflow); each operation is rounded on its own, a product and the sum that follows
  it are not fused. A decimal constant such as \<open>0.05f\<close> is the rounded value \<open>f32 0.05\<close>.
  Comparisons are exact. The conversion of a table temperature from \<open>int\<close> to
  \<open>float\<close> is taken as exact, as it is for every temperature of magnitude up to
  \<open>2 ^ 24\<close>. Infinities and NaN are outside the model: a result beyond the largest
  finite binary32 value is rounded like one in the top binade. The unsigned counters and
  the sleep intervals keep their machine width.
\<close>

type_synonym u32 = "32 word"
type_synonym u64 = "64 word"

text \<open>
  The binary exponent of a magnitude, searched downwards from 127 and not below -126,
  where the subnormal numbers begin.
\<close>

function exp_search :: "real \<Rightarrow> int \<Rightarrow> int" where
  "exp_search y e = (if e \<le> -126 \<or> 2 powi e \<le> y then e else exp_search y (e - 1))"
  by pat_completeness auto
termination
  by (relation "measure (\<lambda>(y, e). nat (e + 126))") auto

declare exp_search.simps [simp del]

definition float_exponent :: "real \<Rightarrow> int" where
  "float_exponent x = exp_search \<bar>x\<bar> 127"

definition round_even :: "real \<Rightarrow> int" where
  "round_even z =
     (let n = \<lfloor>z\<rfloor>; r = z - real_of_int n
      in if r < 1 / 2 then n else if r > 1 / 2 then n + 1 else if even n then n else n + 1)"

text \<open>A binary32 value is a multiple of the unit in the last place of its binade, 24 bits wide.\<close>

definition f32 :: "real \<Rightarrow> real" where
  "f32 x = (let ulp = 2 powi (float_exponent x - 23) in real_of_int (round_even (x / ulp)) * ulp)"

text \<open>
  Modelled from the spec: the type \<open>TemperaturePoint\<close> is declared in fancontrol.h, which
  is absent; the spec gives a control point as a signed integer temperature and a
  fractional duty cycle, and the source initialises and reads the two fields
  \<open>temperature_c\<close> and \<open>fanLevel_f\<close>.
\<close>

record TemperaturePoint =
  temperature_c :: int
  fanLevel_f :: real

definition defaultTable :: "TemperaturePoint list" where
  "defaultTable =
     [\<lparr>temperature_c = 20, fanLevel_f = f32 0.1\<rparr>,
      \<lparr>temperature_c = 40, fanLevel_f = f32 0.5\<rparr>,
      \<lparr>temperature_c = 50, fanLevel_f = f32 0.6\<rparr>,
      \<lparr>temperature_c = 60, fanLevel_f = f32 0.7\<rparr>,
      \<lparr>temperature_c = 100, fanLevel_f = 1\<rparr>]"

text \<open>
  Modelled from the spec: the macro \<open>TABLE_SIZE\<close> is defined in fancontrol.h, which is
  absent. The persisted record holds exactly five control points, as \<open>defaultTable\<close> and
  the fixed index \<open>fanControllerTable + 4\<close> of the source do, so
  \<open>TABLE_SIZE / sizeof(TemperaturePoint)\<close> is five.
\<close>

definition TABLE_POINTS :: nat where
  "TABLE_POINTS = 5"

definition EMERGENCY_TEMP_THRESHOLD :: real where
  "EMERGENCY_TEMP_THRESHOLD = 80"

definition CRITICAL_TEMP_THRESHOLD :: real where
  "CRITICAL_TEMP_THRESHOLD = 90"

definition TEMP_CHANGE_THRESHOLD :: real where
  "TEMP_CHANGE_THRESHOLD = 2"

definition STABLE_READINGS_FOR_SLOWDOWN :: u32 where
  "STABLE_READINGS_FOR_SLOWDOWN = 10"

definition MIN_SLEEP_INTERVAL :: u64 where
  "MIN_SLEEP_INTERVAL = 1000000000"

definition NORMAL_SLEEP_INTERVAL :: u64 where
  "NORMAL_SLEEP_INTERVAL = 10000000000"

definition LONG_SLEEP_INTERVAL :: u64 where
  "LONG_SLEEP_INTERVAL = 30000000000"

definition SLEEP_MODE_INTERVAL :: u64 where
  "SLEEP_MODE_INTERVAL = 300000000000"

text \<open>The file-scope variables of the source that the control loop reads and writes.\<close>

record fan_state =
  fanControllerTable :: "TemperaturePoint list option"
  systemInSleepMode :: bool
  thermalEmergency :: bool
  currentSleepTime :: u64
  lastTemperature :: real
  lastFanLevel :: real
  stableReadings :: u32
  checkCounter :: u32
  powerStateEventInitialized :: bool

section \<open>Adaptive sleep time\<close>

text \<open>
  \<open>CalculateAdaptiveSleepTime\<close> returns the interval and the updated globals. The two
  emergency branches and the sleep-mode branch return before the stability counter is
  touched.
\<close>

definition CalculateAdaptiveSleepTime :: "real \<Rightarrow> real \<Rightarrow> fan_state \<Rightarrow> u64 \<times> fan_state" where
  "CalculateAdaptiveSleepTime currentTemp fanLevel s =
     (if currentTemp \<ge> CRITICAL_TEMP_THRESHOLD then
        (MIN_SLEEP_INTERVAL, s\<lparr>thermalEmergency := True\<rparr>)
      else if currentTemp \<ge> EMERGENCY_TEMP_THRESHOLD then
        (MIN_SLEEP_INTERVAL * 2, s\<lparr>thermalEmergency := True\<rparr>)
      else
        let s1 = s\<lparr>thermalEmergency := False\<rparr> in
        if systemInSleepMode s1 then (SLEEP_MODE_INTERVAL, s1)
        else
          let tempChange = \<bar>f32 (currentTemp - lastTemperature s1)\<bar>;
              fanChange = \<bar>f32 (fanLevel - lastFanLevel s1)\<bar>;
              s2 = (if tempChange < TEMP_CHANGE_THRESHOLD \<and> fanChange < f32 0.05
                    then s1\<lparr>stableReadings := stableReadings s1 + 1\<rparr>
                    else s1\<lparr>stableReadings := 0\<rparr>)
          in if stableReadings s2 \<ge> STABLE_READINGS_FOR_SLOWDOWN then (LONG_SLEEP_INTERVAL, s2)
             else if tempChange < TEMP_CHANGE_THRESHOLD * 2 then (NORMAL_SLEEP_INTERVAL, s2)
             else (NORMAL_SLEEP_INTERVAL div 2, s2))"

section \<open>Curve evaluation\<close>

text \<open>
  The \<open>for\<close> loop of \<open>CalculateFanLevel\<close> over the indices still to visit: the first
  interval whose closed range holds the temperature decides, and running out of indices
  is the fallback \<open>return 0.0f\<close>.
\<close>

fun find_range :: "TemperaturePoint list \<Rightarrow> real \<Rightarrow> nat list \<Rightarrow> real" where
  "find_range tbl temperatureC_f [] = 0"
| "find_range tbl temperatureC_f (i # rest) =
     (let current = tbl ! i; next = tbl ! (i + 1) in
      if temperatureC_f \<ge> real_of_int (temperature_c current) \<and>
         temperatureC_f \<le> real_of_int (temperature_c next)
      then
        let tempDiff = real_of_int (temperature_c next - temperature_c current) in
        if tempDiff \<le> 0 then fanLevel_f current
        else
          let m = f32 (f32 (fanLevel_f next - fanLevel_f current) / tempDiff);
              q = f32 (fanLevel_f current - f32 (m * real_of_int (temperature_c current)))
          in f32 (f32 (m * temperatureC_f) + q)
      else find_range tbl temperatureC_f rest)"

text \<open>
  The global pointer \<open>fanControllerTable\<close> is the first argument; \<open>None\<close> is the null
  pointer. A table is the five points the pointer addresses.
\<close>

definition CalculateFanLevel :: "TemperaturePoint list option \<Rightarrow> real \<Rightarrow> real" where
  "CalculateFanLevel table temperatureC_f =
     (case table of
        None \<Rightarrow> 0
      | Some tbl \<Rightarrow>
          if temperatureC_f \<le> 0 then 0
          else if temperatureC_f \<le> real_of_int (temperature_c (tbl ! 0)) then
            let m = f32 (fanLevel_f (tbl ! 0) / real_of_int (temperature_c (tbl ! 0)))
            in f32 (m * temperatureC_f)
          else if temperatureC_f \<ge> real_of_int (temperature_c (tbl ! 4)) then fanLevel_f (tbl ! 4)
          else find_range tbl temperatureC_f [0 ..< TABLE_POINTS - 1])"









section \<open>The control loop\<close>

text \<open>
  What one run of the thread does to the outside: log lines, writes of a level to the fan
  device, sleeps, and the abort of the process. The formatted status line is kept as its
  three arguments.
\<close>

datatype effect =
    WriteLog string
  | WriteLogStatus real real bool
  | FanSetRotationSpeedLevel real
  | SvcSleepThread u64
  | DiagAbort
  | EventClose
  | FanControllerClose

text \<open>
  \<open>CheckSystemSleepState\<close> is the placeholder of the source: it counts its calls and
  reports the active state.
\<close>

definition CheckSystemSleepState :: "fan_state \<Rightarrow> bool \<times> fan_state" where
  "CheckSystemSleepState s = (False, s\<lparr>checkCounter := checkCounter s + 1\<rparr>)"

text \<open>
  The body of the \<open>while\<close> loop after the sleep-mode flag has been assigned. The sensor
  read is \<open>None\<close> when \<open>Tmp451GetSocTemp\<close> fails; \<open>set_ok\<close> is the result of the device
  write, should one be made.
\<close>

definition loop_body :: "real option \<Rightarrow> bool \<Rightarrow> fan_state \<Rightarrow> effect list \<times> fan_state" where
  "loop_body sensor set_ok s =
     (case sensor of
        None \<Rightarrow>
          ([WriteLog ''ERROR: Failed to get temperature'', SvcSleepThread NORMAL_SLEEP_INTERVAL], s)
      | Some temperatureC_f \<Rightarrow>
          let fanLevelSet_f = CalculateFanLevel (fanControllerTable s) temperatureC_f;
              shouldUpdateFan =
                (if thermalEmergency s then True
                 else if \<bar>f32 (fanLevelSet_f - lastFanLevel s)\<bar> > f32 0.02 then True
                 else if systemInSleepMode s \<and> fanLevelSet_f > f32 0.1 then True
                 else False);
              update =
                (if shouldUpdateFan then
                   [FanSetRotationSpeedLevel fanLevelSet_f,
                    if set_ok then
                      WriteLogStatus temperatureC_f (f32 (fanLevelSet_f * 100)) (systemInSleepMode s)
                    else WriteLog ''ERROR: Failed to set fan speed'']
                 else []);
              (sleepTime, s1) = CalculateAdaptiveSleepTime temperatureC_f fanLevelSet_f s;
              s2 = s1\<lparr>currentSleepTime := sleepTime\<rparr>;
              s3 = s2\<lparr>lastTemperature := temperatureC_f, lastFanLevel := fanLevelSet_f\<rparr>
          in (update @ [SvcSleepThread (currentSleepTime s3)], s3))"

definition loop_iteration :: "real option \<Rightarrow> bool \<Rightarrow> fan_state \<Rightarrow> effect list \<times> fan_state" where
  "loop_iteration sensor set_ok s =
     (let (asleep, s1) = CheckSystemSleepState s
      in loop_body sensor set_ok (s1\<lparr>systemInSleepMode := asleep\<rparr>))"

text \<open>
  The \<open>while\<close> loop, one iteration for each pair of a sensor result and a device-write
  result; the exit flag, set from another thread, is seen when the inputs end.
\<close>

fun run_loop :: "(real option \<times> bool) list \<Rightarrow> fan_state \<Rightarrow> effect list \<times> fan_state" where
  "run_loop [] s = ([], s)"
| "run_loop ((sensor, set_ok) # ticks) s =
     (let (e1, s1) = loop_iteration sensor set_ok s;
          (e2, s2) = run_loop ticks s1
      in (e1 @ e2, s2))"

text \<open>
  \<open>InitPowerStateMonitoring\<close>: \<open>event_ok\<close> is the result of creating the power-state
  event.
\<close>

definition InitPowerStateMonitoring :: "bool \<Rightarrow> fan_state \<Rightarrow> effect list \<times> fan_state" where
  "InitPowerStateMonitoring event_ok s =
     (if event_ok then
        ([WriteLog ''Power state monitoring initialized''], s\<lparr>powerStateEventInitialized := True\<rparr>)
      else ([WriteLog ''Power state monitoring unavailable''], s))"

text \<open>
  The thread function: a failure to open the fan controller aborts before the loop;
  otherwise the loop runs, and the event and the controller are closed after it.
\<close>

definition FanControllerThreadFunction ::
    "bool \<Rightarrow> bool \<Rightarrow> (real option \<times> bool) list \<Rightarrow> fan_state \<Rightarrow> effect list \<times> fan_state" where
  "FanControllerThreadFunction open_ok event_ok ticks s =
     (if \<not> open_ok then ([WriteLog ''ERROR: Failed to open fan controller'', DiagAbort], s)
      else
        let (e0, s0) = InitPowerStateMonitoring event_ok s;
            (e1, s1) = run_loop ticks s0
        in (WriteLog ''Fan controller thread started'' # e0 @ e1 @
              (if powerStateEventInitialized s1 then [EventClose] else []) @
              [FanControllerClose, WriteLog ''Fan controller thread stopped''], s1))"

text \<open>
  The reset of the globals in \<open>InitFanController\<close>; a null table is refused and leaves
  them as they are. Creating the thread is outside the model.
\<close>

definition InitFanController :: "TemperaturePoint list option \<Rightarrow> fan_state \<Rightarrow> fan_state" where
  "InitFanController table s =
     (case table of
        None \<Rightarrow> s
      | Some tbl \<Rightarrow>
          s\<lparr>fanControllerTable := Some tbl, systemInSleepMode := False,
            thermalEmergency := False, currentSleepTime := LONG_SLEEP_INTERVAL,
            lastTemperature := 0, lastFanLevel := 0, stableReadings := 0\<rparr>)"

text \<open>Observations of an effect list: the levels written to the device, the sleeps.\<close>

fun device_writes :: "effect list \<Rightarrow> real list" where
  "device_writes [] = []"
| "device_writes (FanSetRotationSpeedLevel l # es) = l # device_writes es"
| "device_writes (e # es) = device_writes es"

fun sleep_times :: "effect list \<Rightarrow> u64 list" where
  "sleep_times [] = []"
| "sleep_times (SvcSleepThread d # es) = d # sleep_times es"
| "sleep_times (e # es) = sleep_times es"

text \<open>
  For a sequence of temperature readings, whether each is a stable reading with respect
  to the one before it: the temperature moved by less than 2 degrees and the fan level,
  as the curve gives it, by less than \<open>0.05f\<close>, both differences taken in binary32 as the
  scheduler takes them. The first reading is compared with the stored last values.
\<close>

fun stable_flags :: "TemperaturePoint list option \<Rightarrow> real \<Rightarrow> real \<Rightarrow> real list \<Rightarrow> bool list" where
  "stable_flags table lastT lastF [] = []"
| "stable_flags table lastT lastF (t # ts) =
     (let f = CalculateFanLevel table t
      in (\<bar>f32 (t - lastT)\<bar> < 2 \<and> \<bar>f32 (f - lastF)\<bar> < f32 0.05) # stable_flags table t f ts)"

text \<open>The values of the stability counter along a sequence of stable and unstable updates.\<close>

fun counter_trace :: "u32 \<Rightarrow> bool list \<Rightarrow> u32 list" where
  "counter_trace c [] = []"
| "counter_trace c (b # bs) = (let c' = (if b then c + 1 else 0) in c' # counter_trace c' bs)"

text \<open>The globals as their static initialisers leave them, before \<open>InitFanController\<close>.\<close>

definition initial_globals :: fan_state where
  "initial_globals =
     \<lparr>fanControllerTable = None, systemInSleepMode = False, thermalEmergency = False,
      currentSleepTime = 30000000000, lastTemperature = 0, lastFanLevel = 0,
      stableReadings = 0, checkCounter = 0, powerStateEventInitialized = False\<rparr>"

section \<open>The configuration file\<close>

text \<open>
  The configuration directory and file as the two functions see them. A file holds
  control points; a file of fewer than five points is a short record. What the
  environment decides (allocation, directory creation, opening and reading the file) is
  given as flags. Writing the log file is kept as an effect only.
\<close>

record config_store =
  dir_present :: bool
  file_points :: "TemperaturePoint list option"

record config_env =
  alloc_ok :: bool
  alloc_default_ok :: bool
  mkdir_ok :: bool
  open_write_ok :: bool
  open_read_ok :: bool
  read_ok :: bool

datatype config_effect =
    InitLog
  | ConfigLog string
  | WriteConfigFile_call "TemperaturePoint list option"
  | Fwrite "TemperaturePoint list"

definition CreateDir :: "config_env \<Rightarrow> config_store \<Rightarrow> config_store" where
  "CreateDir env st = (if dir_present st then st else st\<lparr>dir_present := mkdir_ok env\<rparr>)"

definition WriteConfigFile ::
    "config_env \<Rightarrow> TemperaturePoint list option \<Rightarrow> config_store \<Rightarrow> config_effect list \<times> config_store" where
  "WriteConfigFile env table st =
     (case (case table of
              None \<Rightarrow> if alloc_default_ok env then Some defaultTable else None
            | Some t \<Rightarrow> Some t) of
        None \<Rightarrow> ([WriteConfigFile_call table], st)
      | Some tableToWrite \<Rightarrow>
          let st1 = (if \<not> dir_present st then CreateDir env st else st) in
          if dir_present st1 \<and> open_write_ok env then
            ([WriteConfigFile_call table, Fwrite (take TABLE_POINTS tableToWrite)],
             st1\<lparr>file_points := Some (take TABLE_POINTS tableToWrite)\<rparr>)
          else ([WriteConfigFile_call table], st1))"

text \<open>
  \<open>ReadConfigFile\<close>: the result is the table stored through \<open>table_out\<close>, \<open>None\<close> when
  nothing is stored (a null \<open>table_out\<close>, or the allocation failed).
\<close>

definition ReadConfigFile ::
    "config_env \<Rightarrow> bool \<Rightarrow> config_store \<Rightarrow>
       TemperaturePoint list option \<times> config_effect list \<times> config_store" where
  "ReadConfigFile env table_out st =
     (if \<not> table_out then (None, [], st)
      else if \<not> alloc_ok env then (None, [InitLog, ConfigLog ''Memory allocation failed''], st)
      else if \<not> dir_present st then
        let st1 = CreateDir env st;
            (e, st2) = WriteConfigFile env None st1
        in (Some defaultTable, InitLog # e @ [ConfigLog ''Created missing config directory''], st2)
      else
        case file_points st of
          None \<Rightarrow>
            let (e, st1) = WriteConfigFile env None st
            in (Some defaultTable, InitLog # e @ [ConfigLog ''Created missing config file''], st1)
        | Some pts \<Rightarrow>
            if open_read_ok env then
              if read_ok env \<and> length pts \<ge> TABLE_POINTS then
                (Some (take TABLE_POINTS pts),
                 [InitLog, ConfigLog ''Config file loaded successfully''], st)
              else
                (Some defaultTable,
                 [InitLog, ConfigLog ''Config file corrupted, using defaults''], st)
            else (Some defaultTable, [InitLog], st))"

fun save_calls :: "config_effect list \<Rightarrow> TemperaturePoint list option list" where
  "save_calls [] = []"
| "save_calls (WriteConfigFile_call t # es) = t # save_calls es"
| "save_calls (e # es) = save_calls es"

section \<open>Properties of the binary32 rounding\<close>






lemma round_even_of_int [simp]: "round_even (real_of_int k) = k"
  by (simp add: round_even_def)

lemma round_even_0 [simp]: "round_even 0 = 0"
  by (simp add: round_even_def)

lemma round_even_numeral [simp]: "round_even (numeral k) = numeral k"
  using round_even_of_int [of "numeral k"] by simp



lemma float_exponent_minus [simp]: "float_exponent (- x) = float_exponent x"
  by (simp add: float_exponent_def)


lemma f32_zero [simp]: "f32 0 = 0"
  by (simp add: f32_def Let_def)




lemmas f32_eval = f32_def float_exponent_def exp_search.simps round_even_def Let_def

section \<open>The scheduler under thermal emergency\<close>

text \<open>
  C6. At or above the critical threshold of 90 degrees the scheduler sets the
  emergency flag and returns the one-second interval, and nothing else of the state is
  changed: the stability counter, the stored last values and the sleep-mode flag have no
  influence on the result.
\<close>

theorem critical_returns_min_interval:
  "currentTemp \<ge> 90 \<Longrightarrow>
     CalculateAdaptiveSleepTime currentTemp fanLevel s =
       (1000000000, s\<lparr>thermalEmergency := True\<rparr>)"
  by (simp add: CalculateAdaptiveSleepTime_def CRITICAL_TEMP_THRESHOLD_def MIN_SLEEP_INTERVAL_def)

theorem critical_returns_min_interval_witness:
  "(95::real) \<ge> 90 \<and>
   CalculateAdaptiveSleepTime 95 1
       (initial_globals\<lparr>systemInSleepMode := True, lastTemperature := 95, lastFanLevel := 1,
          stableReadings := 12\<rparr>) =
     (1000000000,
      initial_globals\<lparr>systemInSleepMode := True, lastTemperature := 95, lastFanLevel := 1,
          stableReadings := 12, thermalEmergency := True\<rparr>)"
  using critical_returns_min_interval [of 95 1
       "initial_globals\<lparr>systemInSleepMode := True, lastTemperature := 95, lastFanLevel := 1,
          stableReadings := 12\<rparr>"]
  by simp

text \<open>
  C10. After every call of the scheduler the emergency flag says whether the sampled
  temperature is at or above the elevated threshold of 80 degrees, whatever the flag was
  before the call: the flag does not latch.
\<close>

theorem thermalEmergency_after_call:
  "thermalEmergency (snd (CalculateAdaptiveSleepTime currentTemp fanLevel s)) = (currentTemp \<ge> 80)"
  by (simp add: CalculateAdaptiveSleepTime_def CRITICAL_TEMP_THRESHOLD_def
      EMERGENCY_TEMP_THRESHOLD_def Let_def)

section \<open>Properties of the curve evaluation\<close>
















section \<open>Properties of the control loop\<close>

lemma sleep_times_append: "sleep_times (xs @ ys) = sleep_times xs @ sleep_times ys"
  by (induction xs rule: sleep_times.induct) simp_all


lemma CalculateAdaptiveSleepTime_cool:
  assumes "currentTemp < 80" and "\<not> systemInSleepMode s"
  shows "CalculateAdaptiveSleepTime currentTemp fanLevel s =
     (let c = (if \<bar>f32 (currentTemp - lastTemperature s)\<bar> < 2 \<and> \<bar>f32 (fanLevel - lastFanLevel s)\<bar> < f32 0.05
               then stableReadings s + 1 else 0)
      in (if 10 \<le> c then 30000000000
          else if \<bar>f32 (currentTemp - lastTemperature s)\<bar> < 4 then 10000000000 else 5000000000,
          s\<lparr>thermalEmergency := False, stableReadings := c\<rparr>))"
  using assms
  by (simp add: CalculateAdaptiveSleepTime_def CRITICAL_TEMP_THRESHOLD_def
      EMERGENCY_TEMP_THRESHOLD_def TEMP_CHANGE_THRESHOLD_def STABLE_READINGS_FOR_SLOWDOWN_def
      LONG_SLEEP_INTERVAL_def NORMAL_SLEEP_INTERVAL_def Let_def)

lemma CalculateAdaptiveSleepTime_frame:
  "fanControllerTable (snd (CalculateAdaptiveSleepTime t f s)) = fanControllerTable s"
  "systemInSleepMode (snd (CalculateAdaptiveSleepTime t f s)) = systemInSleepMode s"
  "lastTemperature (snd (CalculateAdaptiveSleepTime t f s)) = lastTemperature s"
  "lastFanLevel (snd (CalculateAdaptiveSleepTime t f s)) = lastFanLevel s"
  by (simp_all add: CalculateAdaptiveSleepTime_def Let_def)

lemma CalculateAdaptiveSleepTime_counter:
  "stableReadings (snd (CalculateAdaptiveSleepTime t f s)) =
     (if 80 \<le> t \<or> systemInSleepMode s then stableReadings s
      else if \<bar>f32 (t - lastTemperature s)\<bar> < 2 \<and> \<bar>f32 (f - lastFanLevel s)\<bar> < f32 0.05
      then stableReadings s + 1 else 0)"
  by (auto simp: CalculateAdaptiveSleepTime_def CRITICAL_TEMP_THRESHOLD_def
      EMERGENCY_TEMP_THRESHOLD_def TEMP_CHANGE_THRESHOLD_def Let_def)

lemma loop_body_state:
  "snd (loop_body (Some t) set_ok s) =
     (snd (CalculateAdaptiveSleepTime t (CalculateFanLevel (fanControllerTable s) t) s))
       \<lparr>currentSleepTime := fst (CalculateAdaptiveSleepTime t (CalculateFanLevel (fanControllerTable s) t) s),
        lastTemperature := t, lastFanLevel := CalculateFanLevel (fanControllerTable s) t\<rparr>"
  by (simp add: loop_body_def Let_def split: prod.splits)

lemma loop_body_sleep:
  "sleep_times (fst (loop_body (Some t) set_ok s)) =
     [fst (CalculateAdaptiveSleepTime t (CalculateFanLevel (fanControllerTable s) t) s)]"
  by (simp add: loop_body_def Let_def sleep_times_append split: prod.splits)



lemma loop_iteration_eq:
  "loop_iteration sensor set_ok s =
     loop_body sensor set_ok (s\<lparr>checkCounter := checkCounter s + 1, systemInSleepMode := False\<rparr>)"
  by (simp add: loop_iteration_def CheckSystemSleepState_def)

lemma loop_iteration_cool:
  assumes "t < 80"
  shows "sleep_times (fst (loop_iteration (Some t) set_ok s)) =
           [if 10 \<le> stableReadings (snd (loop_iteration (Some t) set_ok s)) then 30000000000
            else if \<bar>f32 (t - lastTemperature s)\<bar> < 4 then 10000000000 else 5000000000]"
    and "stableReadings (snd (loop_iteration (Some t) set_ok s)) =
           (if \<bar>f32 (t - lastTemperature s)\<bar> < 2
               \<and> \<bar>f32 (CalculateFanLevel (fanControllerTable s) t - lastFanLevel s)\<bar> < f32 0.05
            then stableReadings s + 1 else 0)"
  using assms
  by (simp_all add: loop_iteration_eq loop_body_sleep loop_body_state
      CalculateAdaptiveSleepTime_cool Let_def)

lemma loop_iteration_frame:
  "fanControllerTable (snd (loop_iteration (Some t) set_ok s)) = fanControllerTable s"
  "lastTemperature (snd (loop_iteration (Some t) set_ok s)) = t"
  "lastFanLevel (snd (loop_iteration (Some t) set_ok s)) = CalculateFanLevel (fanControllerTable s) t"
  by (simp_all add: loop_iteration_eq loop_body_state CalculateAdaptiveSleepTime_frame)

lemma run_loop_Cons:
  "run_loop ((sensor, set_ok) # ticks) s =
     (fst (loop_iteration sensor set_ok s) @ fst (run_loop ticks (snd (loop_iteration sensor set_ok s))),
      snd (run_loop ticks (snd (loop_iteration sensor set_ok s))))"
  by (simp add: Let_def split: prod.splits)

lemma run_loop_append:
  "run_loop (xs @ ys) s =
     (fst (run_loop xs s) @ fst (run_loop ys (snd (run_loop xs s))),
      snd (run_loop ys (snd (run_loop xs s))))"
proof (induction xs arbitrary: s)
  case Nil
  then show ?case by simp
next
  case (Cons tick xs)
  obtain sensor set_ok where tick: "tick = (sensor, set_ok)" by (cases tick)
  show ?case
    unfolding tick append_Cons run_loop_Cons [of sensor set_ok]
    by (simp add: Cons.IH)
qed

lemma loop_iteration_hot:
  "80 \<le> t \<Longrightarrow> stableReadings (snd (loop_iteration (Some t) set_ok s)) = stableReadings s"
  by (simp add: loop_iteration_eq loop_body_state CalculateAdaptiveSleepTime_counter)



lemma run_loop_trace:
  assumes "map fst ticks = map Some temps" and "\<forall>t\<in>set temps. t < 80"
  shows "map (\<lambda>d. d = LONG_SLEEP_INTERVAL) (sleep_times (fst (run_loop ticks s))) =
           map (\<lambda>c. 10 \<le> c)
             (counter_trace (stableReadings s)
                (stable_flags (fanControllerTable s) (lastTemperature s) (lastFanLevel s) temps))
       \<and> stableReadings (snd (run_loop ticks s)) =
           last (stableReadings s #
             counter_trace (stableReadings s)
               (stable_flags (fanControllerTable s) (lastTemperature s) (lastFanLevel s) temps))"
  using assms
proof (induction ticks arbitrary: temps s)
  case Nil
  then show ?case by simp
next
  case (Cons tick ticks)
  obtain sensor set_ok where tick: "tick = (sensor, set_ok)" by (cases tick)
  from Cons.prems(1) obtain t rest where temps: "temps = t # rest"
    and sensor: "sensor = Some t" and rest: "map fst ticks = map Some rest"
    by (cases temps) (auto simp: tick)
  have cool: "t < 80" and cool_rest: "\<forall>t\<in>set rest. t < 80"
    using Cons.prems(2) by (simp_all add: temps)
  define s1 where "s1 = snd (loop_iteration (Some t) set_ok s)"
  define c where "c = (if \<bar>f32 (t - lastTemperature s)\<bar> < 2
               \<and> \<bar>f32 (CalculateFanLevel (fanControllerTable s) t - lastFanLevel s)\<bar> < f32 0.05
            then stableReadings s + 1 else 0)"
  have c1: "stableReadings s1 = c"
    unfolding s1_def c_def by (rule loop_iteration_cool(2) [OF cool])
  have sl: "sleep_times (fst (loop_iteration (Some t) set_ok s)) =
           [if 10 \<le> c then 30000000000
            else if \<bar>f32 (t - lastTemperature s)\<bar> < 4 then 10000000000 else 5000000000]"
    using loop_iteration_cool(1) [OF cool, of set_ok s] c1 by (simp add: s1_def)
  have fr: "fanControllerTable s1 = fanControllerTable s" "lastTemperature s1 = t"
    "lastFanLevel s1 = CalculateFanLevel (fanControllerTable s) t"
    unfolding s1_def by (rule loop_iteration_frame)+
  note IH = Cons.IH [OF rest cool_rest, of s1]
  have flags: "stable_flags (fanControllerTable s) (lastTemperature s) (lastFanLevel s) temps =
      (\<bar>f32 (t - lastTemperature s)\<bar> < 2
               \<and> \<bar>f32 (CalculateFanLevel (fanControllerTable s) t - lastFanLevel s)\<bar> < f32 0.05)
      # stable_flags (fanControllerTable s1) (lastTemperature s1) (lastFanLevel s1) rest"
    by (simp add: temps fr Let_def)
  have ct: "counter_trace (stableReadings s)
      (stable_flags (fanControllerTable s) (lastTemperature s) (lastFanLevel s) temps) =
      c # counter_trace (stableReadings s1)
        (stable_flags (fanControllerTable s1) (lastTemperature s1) (lastFanLevel s1) rest)"
    unfolding flags by (simp add: c_def c1 Let_def)
  have hd_long: "((if 10 \<le> c then 30000000000
            else if \<bar>f32 (t - lastTemperature s)\<bar> < 4 then 10000000000 else 5000000000) = LONG_SLEEP_INTERVAL)
        = (10 \<le> c)"
    by (simp add: LONG_SLEEP_INTERVAL_def)
  show ?case
    using IH hd_long
    by (simp add: tick sensor run_loop_Cons sleep_times_append sl ct s1_def [symmetric] c1
        del: run_loop.simps)
qed

lemma counter_trace_stable_run:
  "last (c # counter_trace c (replicate n True)) = c + word_of_nat n"
  by (induction n arbitrary: c) (simp_all add: Let_def)

text \<open>Readings on the default curve after the reset of \<open>InitFanController\<close>, evaluated.\<close>

lemma reset_state:
  "fanControllerTable (InitFanController (Some defaultTable) initial_globals) = Some defaultTable"
  "lastTemperature (InitFanController (Some defaultTable) initial_globals) = 0"
  "lastFanLevel (InitFanController (Some defaultTable) initial_globals) = 0"
  "stableReadings (InitFanController (Some defaultTable) initial_globals) = 0"
  by (simp_all add: initial_globals_def InitFanController_def)

lemma eleven_stable_readings:
  "stable_flags (Some defaultTable) 0 0 (replicate 11 1) = replicate 11 True"
  by (simp add: eval_nat_numeral CalculateFanLevel_def defaultTable_def Let_def)
    (simp add: f32_eval)

lemma nine_one_eleven_readings:
  "stable_flags (Some defaultTable) 0 0 (replicate 9 1 @ replicate 12 10) =
     replicate 9 True @ [False] @ replicate 11 True"
  by (simp add: eval_nat_numeral CalculateFanLevel_def defaultTable_def Let_def)
    (simp add: f32_eval)

text \<open>
  C2, as the claim states it, fails: the counter has no ceiling. Eleven stable readings
  after the reset of \<open>InitFanController\<close> leave it at 11, above the required count of 10.
\<close>

theorem counter_saturates_counterexample:
  "\<not> stableReadings
        (snd (run_loop (replicate 11 (Some 1, True))
               (InitFanController (Some defaultTable) initial_globals)))
      \<le> STABLE_READINGS_FOR_SLOWDOWN"
proof -
  let ?s = "InitFanController (Some defaultTable) initial_globals"
  have a: "map fst (replicate 11 (Some (1::real), True)) = map Some (replicate 11 1)"
    by simp
  have b: "\<forall>t\<in>set (replicate 11 (1::real)). t < 80"
    by simp
  have c: "stable_flags (fanControllerTable ?s) (lastTemperature ?s) (lastFanLevel ?s) (replicate 11 1) =
           replicate 11 True"
    by (simp only: reset_state eleven_stable_readings)
  have "stableReadings (snd (run_loop (replicate 11 (Some 1, True)) ?s)) =
      last (stableReadings ?s # counter_trace (stableReadings ?s) (replicate 11 True))"
    using run_loop_trace [OF a b, of ?s, THEN conjunct2] by (simp only: c)
  also have "\<dots> = stableReadings ?s + word_of_nat 11"
    by (rule counter_trace_stable_run)
  also have "\<dots> = 11"
    by (simp add: initial_globals_def InitFanController_def)
  finally show ?thesis
    by (simp add: STABLE_READINGS_FOR_SLOWDOWN_def word_le_nat_alt)
qed

text \<open>
  C2, amended: the counter is an unsigned 32-bit value without a ceiling. Over a run of
  iterations whose readings are all below 80 degrees and all stable, it grows by one
  for each iteration, modulo \<open>2 ^ 32\<close>; as long as the old value and the number of
  iterations add up to less than \<open>2 ^ 32\<close>, the new value is that sum.
\<close>

theorem counter_counts_stable_run:
  assumes "map fst ticks = map Some temps" and "\<forall>t\<in>set temps. t < 80"
    and "stable_flags (fanControllerTable s) (lastTemperature s) (lastFanLevel s) temps =
           replicate (length temps) True"
  shows "stableReadings (snd (run_loop ticks s)) = stableReadings s + word_of_nat (length ticks)
       \<and> (unat (stableReadings s) + length ticks < 2 ^ 32 \<longrightarrow>
            unat (stableReadings (snd (run_loop ticks s))) = unat (stableReadings s) + length ticks)"
proof -
  have "length ticks = length temps"
    using assms(1) by (metis length_map)
  moreover have "stableReadings (snd (run_loop ticks s)) =
      last (stableReadings s # counter_trace (stableReadings s) (replicate (length temps) True))"
    using run_loop_trace [OF assms(1,2), of s, THEN conjunct2] by (simp only: assms(3))
  ultimately have grow:
      "stableReadings (snd (run_loop ticks s)) = stableReadings s + word_of_nat (length ticks)"
    by (simp only: counter_trace_stable_run)
  have "unat (stableReadings s + word_of_nat (length ticks)) = unat (stableReadings s) + length ticks"
    if "unat (stableReadings s) + length ticks < 2 ^ 32"
  proof -
    from that have "length ticks < 2 ^ 32" by simp
    then have "unat (word_of_nat (length ticks) :: u32) = length ticks"
      by (simp add: unat_of_nat)
    with that show ?thesis
      by (simp add: unat_word_ariths)
  qed
  with grow show ?thesis by simp
qed

theorem counter_counts_stable_run_witness:
  "stableReadings
     (snd (run_loop (replicate 11 (Some 1, True))
            (InitFanController (Some defaultTable) initial_globals))) = 11
   \<and> unat (stableReadings
     (snd (run_loop (replicate 11 (Some 1, True))
            (InitFanController (Some defaultTable) initial_globals)))) = 11"
proof -
  let ?s = "InitFanController (Some defaultTable) initial_globals"
  have a: "map fst (replicate 11 (Some (1::real), True)) = map Some (replicate 11 1)"
    by simp
  have b: "\<forall>t\<in>set (replicate 11 (1::real)). t < 80"
    by simp
  have c: "stable_flags (fanControllerTable ?s) (lastTemperature ?s) (lastFanLevel ?s) (replicate 11 1) =
           replicate (length (replicate 11 (1::real))) True"
    by (simp only: reset_state eleven_stable_readings length_replicate)
  show ?thesis
    using counter_counts_stable_run [OF a b c]
    by (simp add: reset_state)
qed

text \<open>
  C4. From a state whose stability counter is zero, over 21 iterations with readings
  below 80 degrees of which the first 9 are stable, the 10th is not and the last 11 are
  stable again, the loop sleeps the 30-second interval on the last two iterations only:
  the 10th and 11th stable readings of the second run.
\<close>

theorem relaxed_interval_after_ten_stable:
  assumes "stableReadings s = 0"
    and "map fst ticks = map Some temps" and "\<forall>t\<in>set temps. t < 80"
    and "stable_flags (fanControllerTable s) (lastTemperature s) (lastFanLevel s) temps =
           replicate 9 True @ [False] @ replicate 11 True"
  shows "map (\<lambda>d. d = LONG_SLEEP_INTERVAL) (sleep_times (fst (run_loop ticks s))) =
           replicate 19 False @ [True, True]"
proof -
  have pattern: "replicate 9 True @ [False] @ replicate 11 True =
      [True, True, True, True, True, True, True, True, True, False,
       True, True, True, True, True, True, True, True, True, True, True]"
    by (simp add: eval_nat_numeral)
  have result: "replicate 19 False @ [True, True] =
      [False, False, False, False, False, False, False, False, False, False,
       False, False, False, False, False, False, False, False, False, True, True]"
    by (simp add: eval_nat_numeral)
  have trace: "map (\<lambda>c. 10 \<le> c)
        (counter_trace (0::u32) (replicate 9 True @ [False] @ replicate 11 True)) =
      replicate 19 False @ [True, True]"
    unfolding pattern result by (simp add: Let_def word_le_nat_alt)
  show ?thesis
    using run_loop_trace [OF assms(2,3), of s, THEN conjunct1]
    by (simp only: assms(1,4) trace)
qed

theorem relaxed_interval_after_ten_stable_witness:
  "map (\<lambda>d. d = LONG_SLEEP_INTERVAL)
     (sleep_times (fst (run_loop (replicate 9 (Some 1, True) @ replicate 12 (Some 10, True))
                         (InitFanController (Some defaultTable) initial_globals)))) =
   replicate 19 False @ [True, True]"
proof -
  let ?s = "InitFanController (Some defaultTable) initial_globals"
  have z: "stableReadings ?s = 0"
    by (rule reset_state)
  have a: "map fst (replicate 9 (Some (1::real), True) @ replicate 12 (Some 10, True)) =
           map Some (replicate 9 1 @ replicate 12 10)"
    by simp
  have b: "\<forall>t\<in>set (replicate 9 (1::real) @ replicate 12 10). t < 80"
    by simp
  have c: "stable_flags (fanControllerTable ?s) (lastTemperature ?s) (lastFanLevel ?s)
             (replicate 9 1 @ replicate 12 10) =
           replicate 9 True @ [False] @ replicate 11 True"
    by (simp only: reset_state nine_one_eleven_readings)
  show ?thesis
    by (rule relaxed_interval_after_ten_stable [OF z a b c])
qed

text \<open>
  C3, as the claim states it, fails: at 80 degrees or more the scheduler returns before
  the stability update. After three stable readings the fourth, 85 degrees, is not a
  stable reading, yet the counter is not reset to zero.
\<close>

theorem stability_update_every_tick_counterexample:
  "stable_flags (Some defaultTable) 0 0 [1, 1, 1, 85] = [True, True, True, False] \<and>
   stableReadings
     (snd (run_loop [(Some 1, True), (Some 1, True), (Some 1, True), (Some 85, True)]
            (InitFanController (Some defaultTable) initial_globals))) \<noteq> 0"
proof -
  let ?s = "InitFanController (Some defaultTable) initial_globals"
  let ?three = "[(Some 1, True), (Some 1, True), (Some (1::real), True)]"
  have flags4: "stable_flags (Some defaultTable) 0 0 [1, 1, 1, 85] = [True, True, True, False]"
    by (simp add: CalculateFanLevel_def defaultTable_def Let_def TABLE_POINTS_def upt_rec)
      (simp add: f32_eval)
  have flags3: "stable_flags (Some defaultTable) 0 0 [1, 1, 1] = [True, True, True]"
    by (simp add: CalculateFanLevel_def defaultTable_def Let_def)
      (simp add: f32_eval)
  have a: "map fst ?three = map Some [1, 1, 1]"
    by simp
  have b: "\<forall>t\<in>set [1, 1, 1::real]. t < 80"
    by simp
  have "stableReadings (snd (run_loop ?three ?s)) =
      last (stableReadings ?s # counter_trace (stableReadings ?s)
        (stable_flags (fanControllerTable ?s) (lastTemperature ?s) (lastFanLevel ?s) [1, 1, 1]))"
    by (rule run_loop_trace [OF a b, of ?s, THEN conjunct2])
  moreover have "last (0 # counter_trace 0 [True, True, True]) = (3::u32)"
    by (simp add: Let_def)
  ultimately have three: "stableReadings (snd (run_loop ?three ?s)) = 3"
    by (simp only: reset_state flags3)
  have "run_loop (?three @ [(Some 85, True)]) ?s =
      (fst (run_loop ?three ?s) @ fst (run_loop [(Some 85, True)] (snd (run_loop ?three ?s))),
       snd (run_loop [(Some 85, True)] (snd (run_loop ?three ?s))))"
    by (rule run_loop_append)
  then have "stableReadings (snd (run_loop (?three @ [(Some 85, True)]) ?s)) =
      stableReadings (snd (loop_iteration (Some 85) True (snd (run_loop ?three ?s))))"
    by (simp add: run_loop_Cons del: run_loop.simps(2))
  also have "\<dots> = stableReadings (snd (run_loop ?three ?s))"
    by (rule loop_iteration_hot) simp
  finally have "stableReadings (snd (run_loop (?three @ [(Some 85, True)]) ?s)) = 3"
    using three by simp
  then show ?thesis
    using flags4 by simp
qed

text \<open>
  C3, amended: on an iteration whose sensor read succeeds, the stability counter is
  updated only when the temperature is below 80 degrees and the sleep-mode flag is false:
  it is then incremented when the temperature moved by less than 2 degrees and the fan
  level by less than 0.05, and reset to zero otherwise, and the interval slept is chosen
  from the updated counter. At 80 degrees or more, or with the sleep-mode flag set, the
  counter is left as it was. The first conjunct is the loop body for any value of the
  flag, the other two the whole iteration, in which the placeholder probe has cleared it.
\<close>

theorem stability_update_when_cool_and_awake:
  "stableReadings (snd (loop_body (Some t) set_ok s)) =
     (if 80 \<le> t \<or> systemInSleepMode s then stableReadings s
      else if \<bar>f32 (t - lastTemperature s)\<bar> < 2
              \<and> \<bar>f32 (CalculateFanLevel (fanControllerTable s) t - lastFanLevel s)\<bar> < f32 0.05
      then stableReadings s + 1 else 0)
   \<and> stableReadings (snd (loop_iteration (Some t) set_ok s)) =
     (if 80 \<le> t then stableReadings s
      else if \<bar>f32 (t - lastTemperature s)\<bar> < 2
              \<and> \<bar>f32 (CalculateFanLevel (fanControllerTable s) t - lastFanLevel s)\<bar> < f32 0.05
      then stableReadings s + 1 else 0)
   \<and> sleep_times (fst (loop_iteration (Some t) set_ok s)) =
     [if 90 \<le> t then 1000000000
      else if 80 \<le> t then 2000000000
      else if 10 \<le> stableReadings (snd (loop_iteration (Some t) set_ok s)) then 30000000000
      else if \<bar>f32 (t - lastTemperature s)\<bar> < 4 then 10000000000
      else 5000000000]"
proof (intro conjI)
  show "stableReadings (snd (loop_body (Some t) set_ok s)) =
     (if 80 \<le> t \<or> systemInSleepMode s then stableReadings s
      else if \<bar>f32 (t - lastTemperature s)\<bar> < 2
              \<and> \<bar>f32 (CalculateFanLevel (fanControllerTable s) t - lastFanLevel s)\<bar> < f32 0.05
      then stableReadings s + 1 else 0)"
    by (simp add: loop_body_state CalculateAdaptiveSleepTime_counter)
  show "stableReadings (snd (loop_iteration (Some t) set_ok s)) =
     (if 80 \<le> t then stableReadings s
      else if \<bar>f32 (t - lastTemperature s)\<bar> < 2
              \<and> \<bar>f32 (CalculateFanLevel (fanControllerTable s) t - lastFanLevel s)\<bar> < f32 0.05
      then stableReadings s + 1 else 0)"
    by (simp add: loop_iteration_eq loop_body_state CalculateAdaptiveSleepTime_counter)
  show "sleep_times (fst (loop_iteration (Some t) set_ok s)) =
     [if 90 \<le> t then 1000000000
      else if 80 \<le> t then 2000000000
      else if 10 \<le> stableReadings (snd (loop_iteration (Some t) set_ok s)) then 30000000000
      else if \<bar>f32 (t - lastTemperature s)\<bar> < 4 then 10000000000
      else 5000000000]"
  proof (cases "t < 80")
    case True
    then show ?thesis using loop_iteration_cool(1) [OF True, of set_ok s] by simp
  next
    case False
    then show ?thesis
      by (simp add: loop_iteration_eq loop_body_sleep CalculateAdaptiveSleepTime_def
          CRITICAL_TEMP_THRESHOLD_def EMERGENCY_TEMP_THRESHOLD_def MIN_SLEEP_INTERVAL_def)
  qed
qed



text \<open>
  C7. On an iteration whose sensor read fails, the loop logs the failure and sleeps the
  normal interval of 10 seconds, and does nothing else: no level is written to the
  device, the process is not aborted, the last temperature, the last fan level, the
  stability counter and the emergency flag keep their values, and the loop goes on with
  the next iteration.
\<close>

theorem sensor_failure_skips_tick:
  "fst (loop_iteration None set_ok s) =
     [WriteLog ''ERROR: Failed to get temperature'', SvcSleepThread 10000000000]
   \<and> device_writes (fst (loop_iteration None set_ok s)) = []
   \<and> sleep_times (fst (loop_iteration None set_ok s)) = [10000000000]
   \<and> lastTemperature (snd (loop_iteration None set_ok s)) = lastTemperature s
   \<and> lastFanLevel (snd (loop_iteration None set_ok s)) = lastFanLevel s
   \<and> stableReadings (snd (loop_iteration None set_ok s)) = stableReadings s
   \<and> thermalEmergency (snd (loop_iteration None set_ok s)) = thermalEmergency s
   \<and> run_loop ((None, set_ok) # ticks) s =
       (fst (loop_iteration None set_ok s) @ fst (run_loop ticks (snd (loop_iteration None set_ok s))),
        snd (run_loop ticks (snd (loop_iteration None set_ok s))))"
  by (simp add: loop_iteration_eq loop_body_def NORMAL_SLEEP_INTERVAL_def Let_def
      split: prod.splits)

section \<open>Properties of the configuration file\<close>

lemma save_calls_append: "save_calls (xs @ ys) = save_calls xs @ save_calls ys"
  by (induction xs rule: save_calls.induct) simp_all

lemma WriteConfigFile_calls: "save_calls (fst (WriteConfigFile env table st)) = [table]"
  by (simp add: WriteConfigFile_def Let_def split: option.splits)

text \<open>
  C1, as the claim states it, fails for a record that is present and short: the default
  curve is returned, but \<open>WriteConfigFile\<close> is not called. Here the file holds three
  points and every operation of the environment succeeds.
\<close>

theorem short_record_rewrites_default_counterexample:
  "fst (ReadConfigFile
          \<lparr>alloc_ok = True, alloc_default_ok = True, mkdir_ok = True, open_write_ok = True,
           open_read_ok = True, read_ok = True\<rparr>
          True \<lparr>dir_present = True, file_points = Some (take 3 defaultTable)\<rparr>) = Some defaultTable
   \<and> length (save_calls (fst (snd (ReadConfigFile
          \<lparr>alloc_ok = True, alloc_default_ok = True, mkdir_ok = True, open_write_ok = True,
           open_read_ok = True, read_ok = True\<rparr>
          True \<lparr>dir_present = True, file_points = Some (take 3 defaultTable)\<rparr>)))) \<noteq> 1"
  by (simp add: ReadConfigFile_def defaultTable_def TABLE_POINTS_def)

text \<open>
  C1, amended: when the allocation succeeds, \<open>ReadConfigFile\<close> returns the default curve
  both for an absent record and for a record that is present but short or unreadable.
  For an absent record (the directory or the file is missing) it calls
  \<open>WriteConfigFile\<close> exactly once, with the null table that stands for the default; for
  a record that is present it does not call it.
\<close>

theorem default_curve_on_absent_or_short_record:
  assumes "table_out" and "alloc_ok env"
  shows "(\<not> dir_present st \<or> file_points st = None \<longrightarrow>
            fst (ReadConfigFile env table_out st) = Some defaultTable
          \<and> save_calls (fst (snd (ReadConfigFile env table_out st))) = [None])
       \<and> (dir_present st \<and> file_points st = Some pts
            \<and> (length pts < TABLE_POINTS \<or> \<not> read_ok env \<or> \<not> open_read_ok env) \<longrightarrow>
            fst (ReadConfigFile env table_out st) = Some defaultTable
          \<and> save_calls (fst (snd (ReadConfigFile env table_out st))) = [])"
  using assms
  by (auto simp: ReadConfigFile_def Let_def case_prod_beta save_calls_append
      WriteConfigFile_calls)

theorem default_curve_on_absent_or_short_record_witness:
  "fst (ReadConfigFile
          \<lparr>alloc_ok = True, alloc_default_ok = True, mkdir_ok = True, open_write_ok = True,
           open_read_ok = True, read_ok = True\<rparr>
          True \<lparr>dir_present = True, file_points = None\<rparr>) = Some defaultTable
   \<and> save_calls (fst (snd (ReadConfigFile
          \<lparr>alloc_ok = True, alloc_default_ok = True, mkdir_ok = True, open_write_ok = True,
           open_read_ok = True, read_ok = True\<rparr>
          True \<lparr>dir_present = True, file_points = None\<rparr>))) = [None]
   \<and> fst (ReadConfigFile
          \<lparr>alloc_ok = True, alloc_default_ok = True, mkdir_ok = True, open_write_ok = True,
           open_read_ok = True, read_ok = True\<rparr>
          True \<lparr>dir_present = True, file_points = Some (take 3 defaultTable)\<rparr>) = Some defaultTable
   \<and> save_calls (fst (snd (ReadConfigFile
          \<lparr>alloc_ok = True, alloc_default_ok = True, mkdir_ok = True, open_write_ok = True,
           open_read_ok = True, read_ok = True\<rparr>
          True \<lparr>dir_present = True, file_points = Some (take 3 defaultTable)\<rparr>))) = []"
proof -
  let ?env = "\<lparr>alloc_ok = True, alloc_default_ok = True, mkdir_ok = True, open_write_ok = True,
           open_read_ok = True, read_ok = True\<rparr>"
  have t: "True" by simp
  have a: "alloc_ok ?env" by simp
  have absent: "\<not> dir_present \<lparr>dir_present = True, file_points = None\<rparr>
      \<or> file_points \<lparr>dir_present = True, file_points = (None :: TemperaturePoint list option)\<rparr> = None"
    by simp
  have short: "dir_present \<lparr>dir_present = True, file_points = Some (take 3 defaultTable)\<rparr>
      \<and> file_points \<lparr>dir_present = True, file_points = Some (take 3 defaultTable)\<rparr>
          = Some (take 3 defaultTable)
      \<and> (length (take 3 defaultTable) < TABLE_POINTS \<or> \<not> read_ok ?env \<or> \<not> open_read_ok ?env)"
    by (simp add: defaultTable_def TABLE_POINTS_def)
  from default_curve_on_absent_or_short_record
         [OF t a, of "\<lparr>dir_present = True, file_points = None\<rparr>", THEN conjunct1, rule_format, OF absent]
       default_curve_on_absent_or_short_record
         [OF t a, of "\<lparr>dir_present = True, file_points = Some (take 3 defaultTable)\<rparr>"
            "take 3 defaultTable", THEN conjunct2, rule_format, OF short]
  show ?thesis by simp
qed

end
